theory Spec2Isabelle
  imports Complex_Main "HOL-Library.Sublist"
begin

section \<open>Strings and characters\<close>

text \<open>
  The landmark matcher of the image-processing Lambda works on JavaScript strings.
  A string is modelled as a \<^typ>\<open>string\<close> whose characters are read as the code points
  U+0000 .. U+00FF (Latin-1), a sub-range of the UTF-16 code units of the source on which
  \<^verbatim>\<open>toLowerCase\<close>, \<^verbatim>\<open>\s\<close>, \<^verbatim>\<open>\W\<close> and \<^verbatim>\<open>trim\<close> are
  closed. JavaScript numbers are modelled as exact rationals.
\<close>

text \<open>The characters matched by \<^verbatim>\<open>\s\<close> and stripped by \<^verbatim>\<open>trim\<close>:
  TAB, LF, VT, FF, CR, SPACE and NO-BREAK SPACE.\<close>

definition isWhiteSpace :: "char \<Rightarrow> bool" where
  "isWhiteSpace c = (of_char c \<in> {9, 10, 11, 12, 13, 32, 160 :: nat})"

text \<open>The characters matched by \<^verbatim>\<open>\w\<close>: ASCII letters, digits and the underscore.\<close>

definition isWordChar :: "char \<Rightarrow> bool" where
  "isWordChar c =
     (let n = of_char c :: nat
      in (48 \<le> n \<and> n \<le> 57) \<or> (65 \<le> n \<and> n \<le> 90) \<or> n = 95 \<or> (97 \<le> n \<and> n \<le> 122))"

text \<open>\<^verbatim>\<open>toLowerCase\<close> on one character: A-Z and the upper-case letters of
  U+00C0 .. U+00DE (all but the multiplication sign U+00D7) move up by 32.\<close>

definition toLowerChar :: "char \<Rightarrow> char" where
  "toLowerChar c =
     (let n = of_char c :: nat
      in if (65 \<le> n \<and> n \<le> 90) \<or> (192 \<le> n \<and> n \<le> 222 \<and> n \<noteq> 215)
         then char_of (n + 32) else c)"

definition toLowerCase :: "string \<Rightarrow> string" where
  "toLowerCase s = map toLowerChar s"

text \<open>\<^verbatim>\<open>s.trim()\<close>: white space is dropped at both ends.\<close>

definition trim :: "string \<Rightarrow> string" where
  "trim s = rev (dropWhile isWhiteSpace (rev (dropWhile isWhiteSpace s)))"

text \<open>\<^verbatim>\<open>s.replace(/\s+/g, '')\<close>: every maximal run of white space is replaced by
  the empty string.\<close>

function replaceWhiteSpaceRuns :: "string \<Rightarrow> string" where
  "replaceWhiteSpaceRuns [] = []"
| "replaceWhiteSpaceRuns (c # cs) =
     (if isWhiteSpace c then replaceWhiteSpaceRuns (dropWhile isWhiteSpace cs)
      else c # replaceWhiteSpaceRuns cs)"
  by pat_completeness auto
termination
  by (relation "measure length") (auto simp: length_dropWhile_le less_Suc_eq_le)

text \<open>\<^verbatim>\<open>s.includes(t)\<close>: \<open>t\<close> occurs in \<open>s\<close> as a contiguous substring.\<close>

definition str_includes :: "string \<Rightarrow> string \<Rightarrow> bool" where
  "str_includes s t = sublist t s"

text \<open>\<^verbatim>\<open>s.split(/\W+/)\<close>: the pieces between the maximal runs of non-word
  characters; a separator at either end leaves an empty piece there, and the empty string
  gives one empty piece.\<close>

function splitNonWord :: "string \<Rightarrow> string list" where
  "splitNonWord s =
     (let piece = takeWhile isWordChar s; rest = dropWhile isWordChar s
      in if rest = [] then [piece]
         else piece # splitNonWord (dropWhile (\<lambda>c. \<not> isWordChar c) rest))"
  by pat_completeness auto
termination
proof (relation "measure length", simp, goal_cases)
  case (1 s piece rest)
  then obtain c cs where r: "dropWhile isWordChar s = c # cs"
    by (cases "dropWhile isWordChar s") auto
  have "\<not> isWordChar c"
    using r hd_dropWhile [of isWordChar s] by auto
  then have "length (dropWhile (\<lambda>c. \<not> isWordChar c) (c # cs)) \<le> length cs"
    by (simp add: length_dropWhile_le)
  also have "length cs < length (dropWhile isWordChar s)"
    using r by simp
  also have "\<dots> \<le> length s"
    by (rule length_dropWhile_le)
  finally show ?case
    using 1 r by simp
qed

section \<open>The normalizer\<close>

text \<open>\<^verbatim>\<open>normalizeLandmarkName\<close> of the image-processing Lambda. The argument is
  \<open>None\<close> for \<^verbatim>\<open>null\<close> or \<^verbatim>\<open>undefined\<close>; the guard \<^verbatim>\<open>!name\<close>
  also holds for the empty string.\<close>

definition normalizeLandmarkName :: "string option \<Rightarrow> string" where
  "normalizeLandmarkName name =
     (case name of
        None \<Rightarrow> []
      | Some s \<Rightarrow> if s = [] then [] else replaceWhiteSpaceRuns (toLowerCase s))"

text \<open>\<^verbatim>\<open>normalizeLandmarkName\<close> of the data-loading Lambda
  (\<^verbatim>\<open>dynamo_data/index.js\<close>), which trims before it removes white space.\<close>

definition normalizeLandmarkName_dynamo :: "string option \<Rightarrow> string" where
  "normalizeLandmarkName_dynamo name =
     (case name of
        None \<Rightarrow> []
      | Some s \<Rightarrow> if s = [] then [] else replaceWhiteSpaceRuns (trim (toLowerCase s)))"

section \<open>The similarity scorer\<close>

text \<open>The inner loop of the word comparison: \<open>word1\<close> finds a partner among the words
  of the second string that are longer than two characters.\<close>

definition wordMatches :: "string \<Rightarrow> string list \<Rightarrow> bool" where
  "wordMatches word1 words2 =
     list_ex (\<lambda>word2. \<not> length word2 \<le> 2 \<and>
                (word1 = word2 \<or> str_includes word1 word2 \<or> str_includes word2 word1)) words2"

text \<open>The outer loop: the number of words of the first string, longer than two characters,
  that find a partner.\<close>

definition matchCount :: "string list \<Rightarrow> string list \<Rightarrow> nat" where
  "matchCount words1 words2 =
     length (filter (\<lambda>word1. \<not> length word1 \<le> 2 \<and> wordMatches word1 words2) words1)"

definition splitWords :: "string \<Rightarrow> string list" where
  "splitWords s = filter (\<lambda>word. length word > 0) (splitNonWord s)"

definition calculateSimilarity :: "string \<Rightarrow> string \<Rightarrow> rat" where
  "calculateSimilarity str1 str2 =
     (let normalizedStr1 = normalizeLandmarkName (Some str1);
          normalizedStr2 = normalizeLandmarkName (Some str2)
      in if normalizedStr1 = normalizedStr2 then 1
         else if str_includes normalizedStr1 normalizedStr2
                 \<or> str_includes normalizedStr2 normalizedStr1
         then (let containmentScore =
                     rat_of_nat (min (length normalizedStr1) (length normalizedStr2)) /
                     rat_of_nat (max (length normalizedStr1) (length normalizedStr2))
               in max (7 / 10) containmentScore)
         else (let words1 = splitWords normalizedStr1;
                   words2 = splitWords normalizedStr2
               in if length words1 > 1 \<or> length words2 > 1
                  then (let overlapScore = rat_of_nat (matchCount words1 words2) /
                                           rat_of_nat (max (length words1) (length words2))
                        in if overlapScore > 0
                           then min (9 / 10) (1 / 2 + overlapScore * (4 / 10))
                           else 0)
                  else 0))"

text \<open>\<^verbatim>\<open>isLandmarkRelatedLabel\<close>: the normalized label contains one of the
  landmark keywords.\<close>

definition landmarkKeywords :: "string list" where
  "landmarkKeywords =
     [''landmark'', ''monument'', ''tower'', ''statue'', ''temple'', ''palace'',
      ''castle'', ''cathedral'', ''church'', ''mosque'', ''pyramid'', ''ruins'',
      ''historical'', ''heritage'', ''ancient'', ''architecture'', ''wonder'',
      ''famous'', ''tourist'', ''attraction'', ''site'', ''building'', ''structure'']"

definition isLandmarkRelatedLabel :: "string \<Rightarrow> bool" where
  "isLandmarkRelatedLabel label =
     (let normalizedLabel = normalizeLandmarkName (Some label)
      in list_ex (\<lambda>keyword. str_includes normalizedLabel keyword) landmarkKeywords)"

section \<open>The match pipeline\<close>

text \<open>A label as Rekognition returns it, a landmark definition of the registry, and the
  object \<^verbatim>\<open>identifyLandmark\<close> returns; a field that a return statement leaves out
  is \<open>None\<close>. The field \<open>keywordList\<close> is the source's \<^verbatim>\<open>keywords\<close>, and
  \<open>detectedLabels\<close> holds the labels with the field names of the input.\<close>

record label =
  Name :: string
  Confidence :: rat

record landmarkDef =
  primaryName :: string
  alternativeNames :: "string list"
  keywordList :: "string list"

record result =
  isLandmark :: bool
  landmarkName :: string
  rawLandmarkName :: "string option"
  detectedLabels :: "label list"
  matchType :: "string option"
  confidence :: "rat option"
  similarityScore :: "rat option"
  matchScore :: "rat option"

definition landmarkDefinitions :: "landmarkDef list" where
  "landmarkDefinitions =
     [\<lparr>primaryName = ''Eiffel Tower'',
       alternativeNames = [''Tour Eiffel'', ''Iron Lady'', ''La Tour Eiffel''],
       keywordList = [''paris'', ''france'', ''iron'', ''tower'']\<rparr>,
      \<lparr>primaryName = ''Statue of Liberty'',
       alternativeNames = [''Liberty Enlightening the World'', ''Lady Liberty''],
       keywordList = [''new york'', ''liberty island'', ''usa'', ''america'']\<rparr>,
      \<lparr>primaryName = ''Colosseum'',
       alternativeNames = [''Coliseum'', ''Flavian Amphitheatre'', ''Roman Colosseum''],
       keywordList = [''rome'', ''italy'', ''arena'', ''amphitheater'', ''gladiator'']\<rparr>,
      \<lparr>primaryName = ''Great Wall of China'',
       alternativeNames = [''Great Wall'', ''Chinese Wall''],
       keywordList = [''china'', ''wall'', ''beijing'', ''defense'']\<rparr>,
      \<lparr>primaryName = ''Machu Picchu'',
       alternativeNames = [''Lost City of the Incas''],
       keywordList = [''peru'', ''inca'', ''ruins'', ''andes'']\<rparr>,
      \<lparr>primaryName = ''Pyramids of Giza'',
       alternativeNames = [''Great Pyramid'', ''Egyptian Pyramids'', ''Pyramid of Khufu''],
       keywordList = [''egypt'', ''pyramid'', ''pharaoh'', ''cairo'', ''sphinx'']\<rparr>,
      \<lparr>primaryName = ''Taj Mahal'',
       alternativeNames = [''Crown of Palaces''],
       keywordList = [''india'', ''agra'', ''mausoleum'', ''marble'', ''mughal'']\<rparr>,
      \<lparr>primaryName = ''Big Ben'',
       alternativeNames = [''Elizabeth Tower'', ''Clock Tower'', ''Westminster Clock''],
       keywordList = [''london'', ''england'', ''uk'', ''parliament'', ''westminster'', ''clock'']\<rparr>,
      \<lparr>primaryName = ''Sydney Opera House'',
       alternativeNames = [''Opera House''],
       keywordList = [''sydney'', ''australia'', ''harbor'', ''theatre'', ''concert hall'']\<rparr>,
      \<lparr>primaryName = ''Mount Fuji'',
       alternativeNames = [''Fujisan'', ''Fuji-san'', ''Fujiyama''],
       keywordList = [''japan'', ''mountain'', ''volcano'', ''peak'']\<rparr>]"

definition popularDestinations :: "string list" where
  "popularDestinations = map primaryName landmarkDefinitions"

text \<open>First pass: the first label, in input order, whose name is one of the primary names
  as it stands and whose confidence is at least 75.\<close>

definition firstPass :: "label list \<Rightarrow> result option" where
  "firstPass labels =
     (case find (\<lambda>label. Name label \<in> set popularDestinations \<and> Confidence label \<ge> 75) labels of
        None \<Rightarrow> None
      | Some label \<Rightarrow>
          Some \<lparr>isLandmark = True,
                landmarkName = normalizeLandmarkName (Some (Name label)),
                rawLandmarkName = Some (Name label),
                detectedLabels = labels,
                matchType = Some ''exact'',
                confidence = Some (Confidence label),
                similarityScore = None,
                matchScore = None\<rparr>)"

text \<open>Second pass: the first pair of a label and a definition, labels in the outer and
  definitions in the inner loop, where the label's name is one of the alternative names.\<close>

definition secondPass :: "label list \<Rightarrow> result option" where
  "secondPass labels =
     (case find (\<lambda>(label, landmarkDef).
                   Name label \<in> set (alternativeNames landmarkDef) \<and> Confidence label \<ge> 75)
                (List.product labels landmarkDefinitions) of
        None \<Rightarrow> None
      | Some (label, landmarkDef) \<Rightarrow>
          Some \<lparr>isLandmark = True,
                landmarkName = normalizeLandmarkName (Some (primaryName landmarkDef)),
                rawLandmarkName = Some (primaryName landmarkDef),
                detectedLabels = labels,
                matchType = Some ''alternative'',
                confidence = Some (Confidence label),
                similarityScore = None,
                matchScore = None\<rparr>)"

text \<open>Third pass. The similarity of a label and a definition is the largest of the
  similarities of the label's name with the primary name and with each alternative name.\<close>

definition pairSimilarity :: "label \<Rightarrow> landmarkDef \<Rightarrow> rat" where
  "pairSimilarity label landmarkDef =
     fold (\<lambda>altName similarityScore.
             let altSimilarityScore = calculateSimilarity (Name label) altName
             in if altSimilarityScore > similarityScore then altSimilarityScore
                else similarityScore)
          (alternativeNames landmarkDef)
          (calculateSimilarity (Name label) (primaryName landmarkDef))"

text \<open>The body of the inner loop, on the variables \<^verbatim>\<open>bestMatch\<close>,
  \<^verbatim>\<open>bestScore\<close> and \<^verbatim>\<open>bestConfidence\<close>.\<close>

definition thirdPassStep ::
  "label \<Rightarrow> landmarkDef \<Rightarrow> string option \<times> rat \<times> rat \<Rightarrow> string option \<times> rat \<times> rat" where
  "thirdPassStep label landmarkDef best =
     (case best of (bestMatch, bestScore, bestConfidence) \<Rightarrow>
        let similarityScore = pairSimilarity label landmarkDef;
            combinedScore = similarityScore * (Confidence label / 100)
        in if similarityScore \<ge> 7 / 10 \<and> combinedScore > bestScore
           then (Some (primaryName landmarkDef), combinedScore, Confidence label)
           else (bestMatch, bestScore, bestConfidence))"

definition thirdPassLoop :: "label list \<Rightarrow> string option \<times> rat \<times> rat" where
  "thirdPassLoop labels =
     fold (\<lambda>label best.
             if Confidence label < 70 then best
             else fold (thirdPassStep label) landmarkDefinitions best)
          labels (None, 0, 0)"

text \<open>The test \<^verbatim>\<open>if (bestMatch)\<close> fails for \<^verbatim>\<open>null\<close> and for the empty
  string.\<close>

definition thirdPass :: "label list \<Rightarrow> result option" where
  "thirdPass labels =
     (case thirdPassLoop labels of
        (None, bestScore, bestConfidence) \<Rightarrow> None
      | (Some bestMatch, bestScore, bestConfidence) \<Rightarrow>
          if bestMatch = [] then None
          else Some \<lparr>isLandmark = True,
                     landmarkName = normalizeLandmarkName (Some bestMatch),
                     rawLandmarkName = Some bestMatch,
                     detectedLabels = labels,
                     matchType = Some ''similarity'',
                     confidence = Some bestConfidence,
                     similarityScore = Some bestScore,
                     matchScore = None\<rparr>)"

text \<open>Fourth pass. The body of the loop over the definitions, on the variables
  \<^verbatim>\<open>bestLandmarkMatch\<close> and \<^verbatim>\<open>bestMatchScore\<close>.\<close>

definition fourthPassStep ::
  "label \<Rightarrow> landmarkDef \<Rightarrow> string option \<times> rat \<Rightarrow> string option \<times> rat" where
  "fourthPassStep bestLabel landmarkDef best =
     (case best of (bestLandmarkMatch, bestMatchScore) \<Rightarrow>
        let similarityScore = calculateSimilarity (Name bestLabel) (primaryName landmarkDef);
            (bestLandmarkMatch, bestMatchScore) =
              (if similarityScore > bestMatchScore
               then (Some (primaryName landmarkDef), similarityScore)
               else (bestLandmarkMatch, bestMatchScore));
            normalizedLabel = normalizeLandmarkName (Some (Name bestLabel));
            keywordMatches =
              filter (\<lambda>keyword. str_includes normalizedLabel (normalizeLandmarkName (Some keyword)))
                     (keywordList landmarkDef)
        in if length keywordMatches > 0
              \<and> rat_of_nat (length keywordMatches) / rat_of_nat (length (keywordList landmarkDef))
                  > bestMatchScore
           then (Some (primaryName landmarkDef),
                 rat_of_nat (length keywordMatches) / rat_of_nat (length (keywordList landmarkDef)))
           else (bestLandmarkMatch, bestMatchScore))"

definition fourthPassLoop :: "label \<Rightarrow> string option \<times> rat" where
  "fourthPassLoop bestLabel = fold (fourthPassStep bestLabel) landmarkDefinitions (None, 0)"

definition genericNames :: "string list" where
  "genericNames = [''Landmark'', ''Monument'', ''Architecture'', ''Building'', ''Structure'']"

definition landmarkLabelsOf :: "label list \<Rightarrow> label list" where
  "landmarkLabelsOf labels =
     filter (\<lambda>label. isLandmarkRelatedLabel (Name label) \<and> Confidence label \<ge> 85) labels"

definition nonGenericLabelsOf :: "label list \<Rightarrow> label list" where
  "nonGenericLabelsOf labels =
     filter (\<lambda>label. Name label \<notin> set genericNames \<and> Confidence label \<ge> 75) labels"

text \<open>\<^verbatim>\<open>nonGenericLabels.sort((a, b) => b.Confidence - a.Confidence)\<close>: a stable sort
  by falling confidence.\<close>

definition sortByConfidence :: "label list \<Rightarrow> label list" where
  "sortByConfidence labels = sort_key (\<lambda>label. - Confidence label) labels"

definition fourthPass :: "label list \<Rightarrow> result option" where
  "fourthPass labels =
     (let landmarkLabels = landmarkLabelsOf labels
      in if length landmarkLabels > 0
         then (let nonGenericLabels = nonGenericLabelsOf labels
               in if length nonGenericLabels > 0
                  then (let bestLabel = hd (sortByConfidence nonGenericLabels);
                            (bestLandmarkMatch, bestMatchScore) = fourthPassLoop bestLabel
                        in if bestLandmarkMatch \<notin> {None, Some []} \<and> bestMatchScore \<ge> 3 / 10
                           then Some \<lparr>isLandmark = True,
                                      landmarkName = normalizeLandmarkName bestLandmarkMatch,
                                      rawLandmarkName = bestLandmarkMatch,
                                      detectedLabels = labels,
                                      matchType = Some ''keyword'',
                                      confidence = Some (Confidence bestLabel),
                                      similarityScore = None,
                                      matchScore = Some bestMatchScore\<rparr>
                           else if Confidence bestLabel \<ge> 85 \<and> length landmarkLabels \<ge> 2
                           then Some \<lparr>isLandmark = True,
                                      landmarkName = normalizeLandmarkName (Some (Name bestLabel)),
                                      rawLandmarkName = Some (Name bestLabel),
                                      detectedLabels = labels,
                                      matchType = Some ''unknown'',
                                      confidence = Some (Confidence bestLabel),
                                      similarityScore = None,
                                      matchScore = None\<rparr>
                           else None)
                  else None)
         else None)"

text \<open>The result when no pass returns.\<close>

definition noLandmark :: "label list \<Rightarrow> result" where
  "noLandmark labels =
     \<lparr>isLandmark = False,
      landmarkName = ''Unknown Landmark'',
      rawLandmarkName = None,
      detectedLabels = labels,
      matchType = None,
      confidence = None,
      similarityScore = None,
      matchScore = None\<rparr>"

text \<open>\<^verbatim>\<open>identifyLandmark\<close>, from the labels that Rekognition returned on: the passes
  run in order and the first one that returns decides.\<close>

definition identifyLandmark :: "label list \<Rightarrow> result" where
  "identifyLandmark labels =
     (case firstPass labels of
        Some r \<Rightarrow> r
      | None \<Rightarrow>
     (case secondPass labels of
        Some r \<Rightarrow> r
      | None \<Rightarrow>
     (case thirdPass labels of
        Some r \<Rightarrow> r
      | None \<Rightarrow>
     (case fourthPass labels of
        Some r \<Rightarrow> r
      | None \<Rightarrow> noLandmark labels))))"

section \<open>The word overlap as the specification words it\<close>

text \<open>The specification of the similarity scorer tokenizes both normalized strings and
  discards the tokens of length at most two before it matches and before it divides. The
  next two definitions follow that wording, to be compared with
  \<^const>\<open>calculateSimilarity\<close>.\<close>

definition spec_tokens :: "string \<Rightarrow> string list" where
  "spec_tokens s = filter (\<lambda>word. \<not> length word \<le> 2) (splitWords s)"

definition spec_overlap :: "string \<Rightarrow> string \<Rightarrow> rat" where
  "spec_overlap str1 str2 =
     (let tokens1 = spec_tokens (normalizeLandmarkName (Some str1));
          tokens2 = spec_tokens (normalizeLandmarkName (Some str2))
      in rat_of_nat (matchCount tokens1 tokens2) /
         rat_of_nat (max (length tokens1) (length tokens2)))"

section \<open>The character classes on the bits of a character\<close>

text \<open>The three character functions, read off the eight bits of the character (lowest bit
  first). Concrete strings are evaluated with these equations.\<close>

lemma toLowerChar_Char [code]:
  "toLowerChar (Char b0 b1 b2 b3 b4 b5 b6 b7) =
     (if b6 \<and> \<not> b5 \<and>
         ((\<not> b7 \<and> (b0 \<or> b1 \<or> b2 \<or> b3 \<or> b4) \<and> \<not> (b4 \<and> b3 \<and> (b2 \<or> (b1 \<and> b0))))
          \<or> (b7 \<and> \<not> (b4 \<and> b2 \<and> b1 \<and> b0)))
      then Char b0 b1 b2 b3 b4 True b6 b7 else Char b0 b1 b2 b3 b4 b5 b6 b7)"
  by (cases b0; cases b1; cases b2; cases b3; cases b4; cases b5; cases b6; cases b7)
     (simp_all add: toLowerChar_def char_of_def bit_Suc_0_iff)

lemma isWhiteSpace_Char [code]:
  "isWhiteSpace (Char b0 b1 b2 b3 b4 b5 b6 b7) =
     ((\<not> b7 \<and> \<not> b6 \<and> \<not> b5 \<and> \<not> b4 \<and> b3 \<and> ((\<not> b2 \<and> (b1 \<or> b0)) \<or> (b2 \<and> \<not> b1)))
      \<or> (\<not> b6 \<and> b5 \<and> \<not> b4 \<and> \<not> b3 \<and> \<not> b2 \<and> \<not> b1 \<and> \<not> b0))"
  by (cases b0; cases b1; cases b2; cases b3; cases b4; cases b5; cases b6; cases b7)
     (simp_all add: isWhiteSpace_def)

lemma isWordChar_Char [code]:
  "isWordChar (Char b0 b1 b2 b3 b4 b5 b6 b7) =
     (\<not> b7 \<and>
      ((\<not> b6 \<and> b5 \<and> b4 \<and> (\<not> b3 \<or> (\<not> b2 \<and> \<not> b1)))
       \<or> (b6 \<and> (b0 \<or> b1 \<or> b2 \<or> b3 \<or> b4) \<and> \<not> (b4 \<and> b3 \<and> (b2 \<or> (b1 \<and> b0))))
       \<or> (b6 \<and> \<not> b5 \<and> b4 \<and> b3 \<and> b2 \<and> b1 \<and> b0)))"
  by (cases b0; cases b1; cases b2; cases b3; cases b4; cases b5; cases b6; cases b7)
     (simp_all add: isWordChar_def)

section \<open>Properties of the normalizer\<close>

lemma filter_dropWhile_neg:
  "filter (\<lambda>c. \<not> P c) (dropWhile P xs) = filter (\<lambda>c. \<not> P c) xs"
  by (induction xs) auto

text \<open>Replacing every white-space run by nothing deletes exactly the white-space
  characters.\<close>

lemma replaceWhiteSpaceRuns_filter:
  "replaceWhiteSpaceRuns s = filter (\<lambda>c. \<not> isWhiteSpace c) s"
  by (induction s rule: replaceWhiteSpaceRuns.induct) (auto simp: filter_dropWhile_neg)

lemma toLowerChar_idem: "toLowerChar (toLowerChar c) = toLowerChar c"
  by (auto simp: toLowerChar_def Let_def)

lemma isWhiteSpace_toLowerChar: "isWhiteSpace (toLowerChar c) = isWhiteSpace c"
  by (auto simp: toLowerChar_def isWhiteSpace_def Let_def)

lemma normalize_Some:
  "normalizeLandmarkName (Some s) = filter (\<lambda>c. \<not> isWhiteSpace c) (map toLowerChar s)"
  by (simp add: normalizeLandmarkName_def replaceWhiteSpaceRuns_filter toLowerCase_def)

lemma filter_trim:
  "filter (\<lambda>c. \<not> isWhiteSpace c) (trim s) = filter (\<lambda>c. \<not> isWhiteSpace c) s"
  by (simp add: trim_def filter_dropWhile_neg flip: rev_filter)

lemma normalize_dynamo_Some:
  "normalizeLandmarkName_dynamo (Some s) = filter (\<lambda>c. \<not> isWhiteSpace c) (map toLowerChar s)"
  by (simp add: normalizeLandmarkName_dynamo_def replaceWhiteSpaceRuns_filter filter_trim
      toLowerCase_def)

lemma normalize_idem_Some:
  "normalizeLandmarkName (Some (normalizeLandmarkName x)) = normalizeLandmarkName x"
proof (cases x)
  case None
  then show ?thesis by (simp add: normalizeLandmarkName_def)
next
  case (Some s)
  have "filter (\<lambda>c. \<not> isWhiteSpace c)
          (map toLowerChar (filter (\<lambda>c. \<not> isWhiteSpace c) (map toLowerChar s)))
      = filter (\<lambda>c. \<not> isWhiteSpace c) (map toLowerChar s)"
    by (induction s) (auto simp: toLowerChar_idem isWhiteSpace_toLowerChar)
  then show ?thesis using Some by (simp add: normalize_Some)
qed

lemma normalize_Eiffel: "normalizeLandmarkName (Some ''Eiffel Tower'') = ''eiffeltower''"
  by code_simp

text \<open>
  Claim C8. \<^verbatim>\<open>normalizeLandmarkName\<close> is total: it returns the empty string for
  \<^verbatim>\<open>null\<close> and for the empty string, and on every other string the lower-cased,
  trimmed string without its white-space runs. Its result holds no white space, is in lower
  case, and normalizing it again changes nothing.
\<close>

theorem normalize_total_idempotent:
  "normalizeLandmarkName None = []
   \<and> normalizeLandmarkName (Some []) = []
   \<and> normalizeLandmarkName (Some s) = replaceWhiteSpaceRuns (trim (toLowerCase s))
   \<and> filter isWhiteSpace (normalizeLandmarkName x) = []
   \<and> toLowerCase (normalizeLandmarkName x) = normalizeLandmarkName x
   \<and> normalizeLandmarkName (Some (normalizeLandmarkName x)) = normalizeLandmarkName x"
proof -
  have a: "normalizeLandmarkName (Some s) = replaceWhiteSpaceRuns (trim (toLowerCase s))"
    by (simp add: normalize_Some replaceWhiteSpaceRuns_filter filter_trim toLowerCase_def)
  have b: "filter isWhiteSpace (normalizeLandmarkName x) = []"
  proof (cases x)
    case None
    then show ?thesis by (simp add: normalizeLandmarkName_def)
  next
    case (Some t)
    then show ?thesis by (simp add: normalize_Some filter_empty_conv)
  qed
  have c: "toLowerCase (normalizeLandmarkName x) = normalizeLandmarkName x"
  proof (cases x)
    case None
    then show ?thesis by (simp add: normalizeLandmarkName_def toLowerCase_def)
  next
    case (Some t)
    then show ?thesis
      by (simp add: normalize_Some toLowerCase_def filter_map o_def toLowerChar_idem)
  qed
  show ?thesis
    using a b c normalize_idem_Some by (simp add: normalizeLandmarkName_def)
qed

theorem normalize_total_idempotent_witness:
  "normalizeLandmarkName (Some ''eiffeltower'') = ''eiffeltower''
   \<and> toLowerCase ''eiffeltower'' = ''eiffeltower''"
  using normalize_total_idempotent [of "[]" "Some ''Eiffel Tower''"]
  unfolding normalize_Eiffel by simp

text \<open>
  Claim C10. The normalizer of the image-processing Lambda, which lower-cases and removes
  the white-space runs, and the normalizer of the data-loading Lambda, which trims in
  between, return the same string on every input.
\<close>

theorem normalize_variants_equal:
  "normalizeLandmarkName_dynamo x = normalizeLandmarkName x"
proof (cases x)
  case None
  then show ?thesis
    by (simp add: normalizeLandmarkName_dynamo_def normalizeLandmarkName_def)
next
  case (Some s)
  then show ?thesis
    by (simp add: normalize_Some normalize_dynamo_Some)
qed

theorem normalize_variants_equal_witness:
  "normalizeLandmarkName_dynamo (Some ''Eiffel Tower'') = ''eiffeltower''"
  using normalize_variants_equal [of "Some ''Eiffel Tower''"]
  unfolding normalize_Eiffel by simp

section \<open>Properties of the similarity scorer\<close>

lemma nat_ratio_le_1: "a \<le> b \<Longrightarrow> rat_of_nat a / rat_of_nat b \<le> 1"
  by (cases "b = 0") (simp_all add: divide_le_eq)

text \<open>Neither division of \<^const>\<open>calculateSimilarity\<close> has a zero denominator on the
  branch that computes it.\<close>

lemma calculateSimilarity_denominators:
  "s \<noteq> t \<Longrightarrow> 0 < max (length s) (length t)"
  "length words1 > 1 \<or> length words2 > 1 \<Longrightarrow> 0 < max (length words1) (length words2)"
  by (cases s; cases t; simp) auto

lemma str_includes_length: "str_includes s t \<Longrightarrow> length t \<le> length s"
  by (simp add: str_includes_def sublist_length_le)

text \<open>The three branches of \<^const>\<open>calculateSimilarity\<close>.\<close>

lemma calculateSimilarity_equal:
  "normalizeLandmarkName (Some a) = normalizeLandmarkName (Some b) \<Longrightarrow> calculateSimilarity a b = 1"
  by (simp add: calculateSimilarity_def)

lemma calculateSimilarity_contains:
  assumes "normalizeLandmarkName (Some a) \<noteq> normalizeLandmarkName (Some b)"
    and "str_includes (normalizeLandmarkName (Some a)) (normalizeLandmarkName (Some b))
         \<or> str_includes (normalizeLandmarkName (Some b)) (normalizeLandmarkName (Some a))"
  shows "calculateSimilarity a b =
         max (7 / 10)
           (rat_of_nat (min (length (normalizeLandmarkName (Some a)))
                            (length (normalizeLandmarkName (Some b)))) /
            rat_of_nat (max (length (normalizeLandmarkName (Some a)))
                            (length (normalizeLandmarkName (Some b)))))"
  using assms by (simp add: calculateSimilarity_def Let_def)

lemma calculateSimilarity_words:
  assumes "normalizeLandmarkName (Some a) \<noteq> normalizeLandmarkName (Some b)"
    and "\<not> str_includes (normalizeLandmarkName (Some a)) (normalizeLandmarkName (Some b))"
    and "\<not> str_includes (normalizeLandmarkName (Some b)) (normalizeLandmarkName (Some a))"
  shows "calculateSimilarity a b =
         (let words1 = splitWords (normalizeLandmarkName (Some a));
              words2 = splitWords (normalizeLandmarkName (Some b));
              overlapScore = rat_of_nat (matchCount words1 words2) /
                             rat_of_nat (max (length words1) (length words2))
          in if (length words1 > 1 \<or> length words2 > 1) \<and> overlapScore > 0
             then min (9 / 10) (1 / 2 + overlapScore * (4 / 10)) else 0)"
  using assms by (simp add: calculateSimilarity_def Let_def)

lemma calculateSimilarity_range:
  "0 \<le> calculateSimilarity a b \<and> calculateSimilarity a b \<le> 1"
proof -
  let ?na = "normalizeLandmarkName (Some a)" and ?nb = "normalizeLandmarkName (Some b)"
  consider (eq) "?na = ?nb"
    | (con) "?na \<noteq> ?nb" "str_includes ?na ?nb \<or> str_includes ?nb ?na"
    | (wrd) "?na \<noteq> ?nb" "\<not> str_includes ?na ?nb" "\<not> str_includes ?nb ?na"
    by blast
  then show ?thesis
  proof cases
    case eq
    then show ?thesis by (simp add: calculateSimilarity_equal)
  next
    case con
    have "rat_of_nat (min (length ?na) (length ?nb)) / rat_of_nat (max (length ?na) (length ?nb))
          \<le> 1"
      by (rule nat_ratio_le_1) simp
    then show ?thesis
      unfolding calculateSimilarity_contains [OF con] by (simp add: max_def)
  next
    case wrd
    show ?thesis
      unfolding calculateSimilarity_words [OF wrd] by (simp add: Let_def min_def)
  qed
qed

lemma normalize_names_witness:
  "normalizeLandmarkName (Some ''EIFFEL  tower '') = ''eiffeltower''"
  "normalizeLandmarkName (Some ''Tower'') = ''tower''"
  "str_includes ''eiffeltower'' ''tower''"
  by code_simp+

text \<open>
  Claim C7. For all strings \<open>a\<close> and \<open>b\<close> the similarity lies between 0 and 1; it is 1
  when the normalized forms are equal; and when the normalized forms differ and one contains
  the other, it is the larger of 0.7 and the length of the contained string over the length
  of the containing one.
\<close>

theorem calculateSimilarity_bounds_and_containment:
  "0 \<le> calculateSimilarity a b \<and> calculateSimilarity a b \<le> 1
   \<and> (normalizeLandmarkName (Some a) = normalizeLandmarkName (Some b)
        \<longrightarrow> calculateSimilarity a b = 1)
   \<and> (normalizeLandmarkName (Some a) \<noteq> normalizeLandmarkName (Some b)
        \<and> str_includes (normalizeLandmarkName (Some a)) (normalizeLandmarkName (Some b))
        \<longrightarrow> calculateSimilarity a b =
            max (7 / 10) (rat_of_nat (length (normalizeLandmarkName (Some b))) /
                          rat_of_nat (length (normalizeLandmarkName (Some a)))))
   \<and> (normalizeLandmarkName (Some a) \<noteq> normalizeLandmarkName (Some b)
        \<and> str_includes (normalizeLandmarkName (Some b)) (normalizeLandmarkName (Some a))
        \<longrightarrow> calculateSimilarity a b =
            max (7 / 10) (rat_of_nat (length (normalizeLandmarkName (Some a))) /
                          rat_of_nat (length (normalizeLandmarkName (Some b)))))"
proof -
  let ?na = "normalizeLandmarkName (Some a)" and ?nb = "normalizeLandmarkName (Some b)"
  have c1: "calculateSimilarity a b = max (7 / 10) (rat_of_nat (length ?nb) / rat_of_nat (length ?na))"
    if "?na \<noteq> ?nb" "str_includes ?na ?nb"
  proof -
    have "length ?nb \<le> length ?na"
      using that(2) by (rule str_includes_length)
    then show ?thesis
      using calculateSimilarity_contains [of a b] that by (simp add: min_def max_def)
  qed
  have c2: "calculateSimilarity a b = max (7 / 10) (rat_of_nat (length ?na) / rat_of_nat (length ?nb))"
    if "?na \<noteq> ?nb" "str_includes ?nb ?na"
  proof -
    have "length ?na \<le> length ?nb"
      using that(2) by (rule str_includes_length)
    then show ?thesis
      using calculateSimilarity_contains [of a b] that by (simp add: min_def max_def)
  qed
  show ?thesis
    using calculateSimilarity_range [of a b] calculateSimilarity_equal [of a b] c1 c2 by blast
qed

theorem calculateSimilarity_bounds_and_containment_witness:
  "calculateSimilarity ''Eiffel Tower'' ''EIFFEL  tower '' = 1
   \<and> calculateSimilarity ''Eiffel Tower'' ''Tower'' = 7 / 10"
proof -
  have "calculateSimilarity ''Eiffel Tower'' ''EIFFEL  tower '' = 1"
    using calculateSimilarity_bounds_and_containment [of "''Eiffel Tower''" "''EIFFEL  tower ''"]
    by (simp add: normalize_Eiffel normalize_names_witness)
  moreover have "calculateSimilarity ''Eiffel Tower'' ''Tower'' = 7 / 10"
    using calculateSimilarity_bounds_and_containment [of "''Eiffel Tower''" "''Tower''"]
    by (simp add: normalize_Eiffel normalize_names_witness)
  ultimately show ?thesis by simp
qed

text \<open>
  Claim C9. The similarity of two strings is either 0 or greater than 0.5: equal normalized
  forms give 1, containment gives at least 0.7, and a positive word overlap gives more
  than 0.5.
\<close>

theorem calculateSimilarity_zero_or_above_half:
  "calculateSimilarity a b = 0 \<or> 1 / 2 < calculateSimilarity a b"
proof -
  let ?na = "normalizeLandmarkName (Some a)" and ?nb = "normalizeLandmarkName (Some b)"
  consider (eq) "?na = ?nb"
    | (con) "?na \<noteq> ?nb" "str_includes ?na ?nb \<or> str_includes ?nb ?na"
    | (wrd) "?na \<noteq> ?nb" "\<not> str_includes ?na ?nb" "\<not> str_includes ?nb ?na"
    by blast
  then show ?thesis
  proof cases
    case eq
    then show ?thesis by (simp add: calculateSimilarity_equal)
  next
    case con
    have "(7 / 10 :: rat) \<le> max (7 / 10) x" for x
      by simp
    then have "(1 / 2 :: rat) < max (7 / 10) x" for x
      by (rule less_le_trans [rotated]) simp
    then show ?thesis
      unfolding calculateSimilarity_contains [OF con] by simp
  next
    case wrd
    show ?thesis
      unfolding calculateSimilarity_words [OF wrd] by (simp add: Let_def min_def)
  qed
qed

lemma similarity_Dog_Eiffel: "calculateSimilarity ''Dog'' ''Eiffel Tower'' = 0"
  by code_simp

theorem calculateSimilarity_zero_or_above_half_witness:
  "\<not> 1 / 2 < calculateSimilarity ''Dog'' ''Eiffel Tower''"
  using calculateSimilarity_zero_or_above_half [of "''Dog''" "''Eiffel Tower''"]
  unfolding similarity_Dog_Eiffel by simp

subsection \<open>The word overlap\<close>

lemma wordMatches_long:
  "wordMatches w (filter (\<lambda>word. \<not> length word \<le> 2) ws) = wordMatches w ws"
  by (auto simp: wordMatches_def list_ex_iff)

text \<open>Words of at most two characters take no part in the matching, on either side.\<close>

lemma matchCount_long:
  "matchCount (filter (\<lambda>word. \<not> length word \<le> 2) ws1) (filter (\<lambda>word. \<not> length word \<le> 2) ws2)
   = matchCount ws1 ws2"
  unfolding matchCount_def wordMatches_long filter_filter
  by (rule arg_cong [where f = length], rule filter_cong) auto

lemma overlap_example:
  "normalizeLandmarkName (Some ''a-b-tower'') \<noteq> normalizeLandmarkName (Some ''tower-bridge'')"
  "\<not> str_includes (normalizeLandmarkName (Some ''a-b-tower''))
                  (normalizeLandmarkName (Some ''tower-bridge''))"
  "\<not> str_includes (normalizeLandmarkName (Some ''tower-bridge''))
                  (normalizeLandmarkName (Some ''a-b-tower''))"
  "spec_overlap ''a-b-tower'' ''tower-bridge'' = 1 / 2"
  "calculateSimilarity ''a-b-tower'' ''tower-bridge'' = 19 / 30"
  "splitWords (normalizeLandmarkName (Some ''a-b-tower'')) = [''a'', ''b'', ''tower'']"
  "splitWords (normalizeLandmarkName (Some ''tower-bridge'')) = [''tower'', ''bridge'']"
  "matchCount [''tower''] [''tower'', ''bridge''] = 1"
  by code_simp+

text \<open>
  Claim C5, as the specification states it, fails. For \<open>a-b-tower\<close> and \<open>tower-bridge\<close>
  the normalized forms differ and neither contains the other; with the short tokens
  discarded before dividing, the overlap is 1/2 and the score would be 0.7, but
  \<^const>\<open>calculateSimilarity\<close> divides by the three tokens of the first string and
  returns 19/30.
\<close>

theorem word_overlap_spec_counterexample:
  "normalizeLandmarkName (Some ''a-b-tower'') \<noteq> normalizeLandmarkName (Some ''tower-bridge'')
   \<and> \<not> str_includes (normalizeLandmarkName (Some ''a-b-tower''))
                     (normalizeLandmarkName (Some ''tower-bridge''))
   \<and> \<not> str_includes (normalizeLandmarkName (Some ''tower-bridge''))
                     (normalizeLandmarkName (Some ''a-b-tower''))
   \<and> 0 < spec_overlap ''a-b-tower'' ''tower-bridge''
   \<and> calculateSimilarity ''a-b-tower'' ''tower-bridge''
       \<noteq> min (9 / 10) (1 / 2 + spec_overlap ''a-b-tower'' ''tower-bridge'' * (4 / 10))"
  by (simp add: overlap_example)

text \<open>
  Claim C5, amended. For strings whose normalized forms differ and do not contain each
  other, tokens of length at most two are left out of the matching on both sides, but they
  still count in the denominator: the overlap is the match count over the larger of the
  two lengths of the lists of all non-empty tokens. When one of those lists has more than
  one token and the overlap is positive, the result is \<open>min(0.9, 0.5 + overlap * 0.4)\<close>,
  and 0 otherwise.
\<close>

theorem word_overlap_code:
  assumes "normalizeLandmarkName (Some a) \<noteq> normalizeLandmarkName (Some b)"
    and "\<not> str_includes (normalizeLandmarkName (Some a)) (normalizeLandmarkName (Some b))"
    and "\<not> str_includes (normalizeLandmarkName (Some b)) (normalizeLandmarkName (Some a))"
  shows "matchCount (splitWords (normalizeLandmarkName (Some a)))
                    (splitWords (normalizeLandmarkName (Some b)))
         = matchCount (spec_tokens (normalizeLandmarkName (Some a)))
                      (spec_tokens (normalizeLandmarkName (Some b)))
       \<and> calculateSimilarity a b =
         (let words1 = splitWords (normalizeLandmarkName (Some a));
              words2 = splitWords (normalizeLandmarkName (Some b));
              overlap = rat_of_nat (matchCount (spec_tokens (normalizeLandmarkName (Some a)))
                                               (spec_tokens (normalizeLandmarkName (Some b)))) /
                        rat_of_nat (max (length words1) (length words2))
          in if (length words1 > 1 \<or> length words2 > 1) \<and> overlap > 0
             then min (9 / 10) (1 / 2 + overlap * (4 / 10)) else 0)"
  unfolding calculateSimilarity_words [OF assms] spec_tokens_def matchCount_long
  by simp

theorem word_overlap_code_witness:
  "calculateSimilarity ''a-b-tower'' ''tower-bridge'' = 1 / 2 + (1 / 3) * (4 / 10)"
  using word_overlap_code [OF overlap_example(1,2,3)]
  by (simp add: overlap_example(6,7,8) spec_tokens_def)

section \<open>Properties of the match pipeline\<close>

subsection \<open>What each pass returns\<close>

lemma firstPass_shape:
  assumes "firstPass labels = Some r"
  shows "isLandmark r \<and> matchType r = Some ''exact'' \<and> similarityScore r = None
         \<and> (\<exists>raw. rawLandmarkName r = Some raw \<and> landmarkName r = normalizeLandmarkName (Some raw))"
  using assms by (auto simp: firstPass_def split: option.splits)

lemma secondPass_shape:
  assumes "secondPass labels = Some r"
  shows "isLandmark r \<and> matchType r = Some ''alternative'' \<and> similarityScore r = None
         \<and> (\<exists>raw. rawLandmarkName r = Some raw \<and> landmarkName r = normalizeLandmarkName (Some raw))"
  using assms by (auto simp: secondPass_def split: option.splits prod.splits)

lemma thirdPass_shape:
  assumes "thirdPass labels = Some r"
  shows "isLandmark r \<and> matchType r = Some ''similarity''
         \<and> (\<exists>raw. rawLandmarkName r = Some raw \<and> landmarkName r = normalizeLandmarkName (Some raw))"
  using assms by (auto simp: thirdPass_def split: option.splits prod.splits if_splits)

lemma fourthPass_shape:
  assumes "fourthPass labels = Some r"
  shows "isLandmark r \<and> (matchType r = Some ''keyword'' \<or> matchType r = Some ''unknown'')
         \<and> similarityScore r = None
         \<and> (\<exists>raw. rawLandmarkName r = Some raw \<and> landmarkName r = normalizeLandmarkName (Some raw))"
  using assms by (auto simp: fourthPass_def Let_def split: option.splits prod.splits if_splits)

lemma identify_empty: "identifyLandmark [] = noLandmark []"
  by (simp add: identifyLandmark_def firstPass_def secondPass_def thirdPass_def thirdPassLoop_def
      fourthPass_def landmarkLabelsOf_def)

text \<open>
  Claim C2, as the specification states it, fails: on the empty label list the pipeline
  reports no match, and the identifier it returns is not the empty string.
\<close>

theorem result_invariants_counterexample:
  "\<not> isLandmark (identifyLandmark []) \<and> landmarkName (identifyLandmark []) \<noteq> []"
  by (simp add: identify_empty noLandmark_def)

text \<open>
  Claim C2, amended. Every result of the pipeline is a match exactly when it carries a match
  type; a match carries a raw name and its identifier is the normalized raw name; a result
  that is no match carries the identifier \<open>Unknown Landmark\<close> and no raw name.
\<close>

theorem result_invariants:
  "(isLandmark (identifyLandmark labels) \<longleftrightarrow> matchType (identifyLandmark labels) \<noteq> None)
   \<and> (isLandmark (identifyLandmark labels) \<longrightarrow>
        (\<exists>raw. rawLandmarkName (identifyLandmark labels) = Some raw
               \<and> landmarkName (identifyLandmark labels) = normalizeLandmarkName (Some raw)))
   \<and> (\<not> isLandmark (identifyLandmark labels) \<longrightarrow>
        landmarkName (identifyLandmark labels) = ''Unknown Landmark''
        \<and> rawLandmarkName (identifyLandmark labels) = None)"
proof (cases "firstPass labels")
  case (Some r)
  then show ?thesis
    using firstPass_shape [OF Some] by (simp add: identifyLandmark_def)
next
  case n1: None
  show ?thesis
  proof (cases "secondPass labels")
    case (Some r)
    then show ?thesis
      using n1 secondPass_shape [OF Some] by (simp add: identifyLandmark_def)
  next
    case n2: None
    show ?thesis
    proof (cases "thirdPass labels")
      case (Some r)
      then show ?thesis
        using n1 n2 thirdPass_shape [OF Some] by (simp add: identifyLandmark_def)
    next
      case n3: None
      show ?thesis
      proof (cases "fourthPass labels")
        case (Some r)
        then show ?thesis
          using n1 n2 n3 fourthPass_shape [OF Some] by (auto simp add: identifyLandmark_def)
      next
        case None
        then show ?thesis
          using n1 n2 n3 by (simp add: identifyLandmark_def noLandmark_def)
      qed
    qed
  qed
qed

theorem result_invariants_witness:
  "landmarkName (identifyLandmark []) = ''Unknown Landmark''
   \<and> rawLandmarkName (identifyLandmark []) = None"
proof -
  have "\<not> isLandmark (identifyLandmark [])"
    by (simp add: identify_empty noLandmark_def)
  then show ?thesis
    using result_invariants [of "[]"] by blast
qed

subsection \<open>The first pass\<close>

lemma identify_lowercase_eiffel:
  "identifyLandmark [\<lparr>Name = ''eiffel tower'', Confidence = 80\<rparr>]
   = \<lparr>isLandmark = True, landmarkName = ''eiffeltower'', rawLandmarkName = Some ''Eiffel Tower'',
      detectedLabels = [\<lparr>Name = ''eiffel tower'', Confidence = 80\<rparr>],
      matchType = Some ''similarity'', confidence = Some 80, similarityScore = Some (4 / 5),
      matchScore = None\<rparr>"
  by code_simp

lemma lowercase_eiffel_facts:
  "normalizeLandmarkName (Some ''eiffel tower'') = ''eiffeltower''"
  "''Eiffel Tower'' \<in> set popularDestinations"
  "''Big Ben'' \<in> set popularDestinations"
  "pairSimilarity \<lparr>Name = ''eiffel tower'', Confidence = 80\<rparr> (hd landmarkDefinitions) = 1"
  "primaryName (hd landmarkDefinitions) = ''Eiffel Tower''"
  by code_simp+

text \<open>
  Claim C1, as the specification states it, fails. The label \<open>eiffel tower\<close> with
  confidence 80 normalizes to the normalized primary name of the Eiffel Tower, yet the first
  pass compares the names as they stand and passes it by; the match comes from the third
  pass, with match type \<open>similarity\<close>.
\<close>

theorem exact_tier_counterexample:
  "normalizeLandmarkName (Some ''eiffel tower'') = normalizeLandmarkName (Some ''Eiffel Tower'')
   \<and> ''Eiffel Tower'' \<in> set popularDestinations
   \<and> matchType (identifyLandmark [\<lparr>Name = ''eiffel tower'', Confidence = 80\<rparr>]) \<noteq> Some ''exact''"
  unfolding identify_lowercase_eiffel by (simp add: lowercase_eiffel_facts normalize_Eiffel)

text \<open>
  Claim C1, amended. Whenever some label carries, as it stands, the primary name of a
  registry entity and has confidence at least 75, the pipeline returns match type
  \<open>exact\<close>, whatever the other labels are; the raw name, the identifier (its normalized
  form) and the confidence are those of the first such label in input order.
\<close>

theorem exact_tier:
  assumes "l \<in> set labels" and "Name l \<in> set popularDestinations" and "75 \<le> Confidence l"
  shows "\<exists>first. find (\<lambda>label. Name label \<in> set popularDestinations \<and> 75 \<le> Confidence label) labels
                  = Some first
          \<and> Name first \<in> set popularDestinations
          \<and> isLandmark (identifyLandmark labels)
          \<and> matchType (identifyLandmark labels) = Some ''exact''
          \<and> rawLandmarkName (identifyLandmark labels) = Some (Name first)
          \<and> landmarkName (identifyLandmark labels) = normalizeLandmarkName (Some (Name first))
          \<and> confidence (identifyLandmark labels) = Some (Confidence first)"
proof -
  let ?P = "\<lambda>label. Name label \<in> set popularDestinations \<and> 75 \<le> Confidence label"
  have "find ?P labels \<noteq> None"
    using assms by (auto simp: find_None_iff)
  then obtain first where f: "find ?P labels = Some first"
    by auto
  then have "?P first"
    by (auto simp: find_Some_iff)
  then show ?thesis
    using f by (simp add: identifyLandmark_def firstPass_def)
qed

lemma find_Eiffel_BigBen:
  "find (\<lambda>label. Name label \<in> set popularDestinations \<and> 75 \<le> Confidence label)
        [\<lparr>Name = ''Eiffel Tower'', Confidence = 80\<rparr>, \<lparr>Name = ''Big Ben'', Confidence = 90\<rparr>]
   = Some \<lparr>Name = ''Eiffel Tower'', Confidence = 80\<rparr>"
  by code_simp

theorem exact_tier_witness:
  "matchType (identifyLandmark [\<lparr>Name = ''Eiffel Tower'', Confidence = 80\<rparr>,
                                \<lparr>Name = ''Big Ben'', Confidence = 90\<rparr>]) = Some ''exact''
   \<and> landmarkName (identifyLandmark [\<lparr>Name = ''Eiffel Tower'', Confidence = 80\<rparr>,
                                     \<lparr>Name = ''Big Ben'', Confidence = 90\<rparr>]) = ''eiffeltower''"
  using exact_tier [of "\<lparr>Name = ''Big Ben'', Confidence = 90\<rparr>"
                       "[\<lparr>Name = ''Eiffel Tower'', Confidence = 80\<rparr>,
                         \<lparr>Name = ''Big Ben'', Confidence = 90\<rparr>]"]
  by (auto simp: lowercase_eiffel_facts find_Eiffel_BigBen normalize_Eiffel)

subsection \<open>The third pass\<close>

text \<open>The loop of the third pass keeps, in \<^verbatim>\<open>bestScore\<close>, the similarity of some
  label and definition multiplied by the label's confidence over 100.\<close>

lemma thirdPassStep_inv:
  assumes "l \<in> L" and "d \<in> D"
    and "fst best = None
         \<or> (\<exists>l' \<in> L. \<exists>d' \<in> D. best = (Some (primaryName d'),
                                         pairSimilarity l' d' * (Confidence l' / 100), Confidence l'))"
  shows "fst (thirdPassStep l d best) = None
         \<or> (\<exists>l' \<in> L. \<exists>d' \<in> D. thirdPassStep l d best
               = (Some (primaryName d'), pairSimilarity l' d' * (Confidence l' / 100), Confidence l'))"
proof (cases best)
  case (fields m s c)
  show ?thesis
  proof (cases "7 / 10 \<le> pairSimilarity l d \<and> s < pairSimilarity l d * (Confidence l / 100)")
    case True
    then have "thirdPassStep l d best
               = (Some (primaryName d), pairSimilarity l d * (Confidence l / 100), Confidence l)"
      by (simp add: fields thirdPassStep_def Let_def)
    then show ?thesis
      using assms(1,2) by blast
  next
    case False
    then have "thirdPassStep l d best = best"
      by (auto simp: fields thirdPassStep_def Let_def)
    then show ?thesis
      using assms(3) by simp
  qed
qed

lemma thirdPass_fold_inv:
  assumes "l \<in> L" and "set ds \<subseteq> D"
    and "fst best = None
         \<or> (\<exists>l' \<in> L. \<exists>d' \<in> D. best = (Some (primaryName d'),
                                         pairSimilarity l' d' * (Confidence l' / 100), Confidence l'))"
  shows "fst (fold (thirdPassStep l) ds best) = None
         \<or> (\<exists>l' \<in> L. \<exists>d' \<in> D. fold (thirdPassStep l) ds best
               = (Some (primaryName d'), pairSimilarity l' d' * (Confidence l' / 100), Confidence l'))"
  using assms(2,3)
proof (induction ds arbitrary: best)
  case Nil
  then show ?case by simp
next
  case (Cons d ds)
  have d: "d \<in> D" and ds: "set ds \<subseteq> D"
    using Cons.prems(1) by simp_all
  show ?case
    using Cons.IH [OF ds thirdPassStep_inv [OF assms(1) d Cons.prems(2)]] by simp
qed

lemma thirdPassLoop_fold_inv:
  assumes "set ls \<subseteq> L"
    and "fst best = None
         \<or> (\<exists>l' \<in> L. \<exists>d' \<in> set landmarkDefinitions. best = (Some (primaryName d'),
                                         pairSimilarity l' d' * (Confidence l' / 100), Confidence l'))"
  shows "fst (fold (\<lambda>label best. if Confidence label < 70 then best
                                  else fold (thirdPassStep label) landmarkDefinitions best) ls best) = None
         \<or> (\<exists>l' \<in> L. \<exists>d' \<in> set landmarkDefinitions.
               fold (\<lambda>label best. if Confidence label < 70 then best
                                   else fold (thirdPassStep label) landmarkDefinitions best) ls best
               = (Some (primaryName d'), pairSimilarity l' d' * (Confidence l' / 100), Confidence l'))"
  using assms
proof (induction ls arbitrary: best)
  case Nil
  then show ?case by simp
next
  case (Cons l ls)
  have l: "l \<in> L" and ls: "set ls \<subseteq> L"
    using Cons.prems(1) by simp_all
  show ?case
  proof (cases "Confidence l < 70")
    case True
    then show ?thesis
      using Cons.IH [OF ls Cons.prems(2)] by simp
  next
    case False
    then show ?thesis
      using Cons.IH [OF ls thirdPass_fold_inv [OF l subset_refl Cons.prems(2)]] by simp
  qed
qed

lemma thirdPass_returns_combined_score:
  assumes "thirdPass labels = Some r"
  shows "\<exists>l \<in> set labels. \<exists>d \<in> set landmarkDefinitions.
           rawLandmarkName r = Some (primaryName d)
           \<and> confidence r = Some (Confidence l)
           \<and> similarityScore r = Some (pairSimilarity l d * (Confidence l / 100))"
proof -
  have "fst (thirdPassLoop labels) = None
        \<or> (\<exists>l \<in> set labels. \<exists>d \<in> set landmarkDefinitions. thirdPassLoop labels
               = (Some (primaryName d), pairSimilarity l d * (Confidence l / 100), Confidence l))"
    unfolding thirdPassLoop_def by (rule thirdPassLoop_fold_inv) simp_all
  moreover have "fst (thirdPassLoop labels) \<noteq> None"
    using assms by (auto simp: thirdPass_def split: prod.splits option.splits)
  ultimately obtain l d where ld: "l \<in> set labels" "d \<in> set landmarkDefinitions"
    "thirdPassLoop labels
       = (Some (primaryName d), pairSimilarity l d * (Confidence l / 100), Confidence l)"
    by blast
  have "rawLandmarkName r = Some (primaryName d) \<and> confidence r = Some (Confidence l)
        \<and> similarityScore r = Some (pairSimilarity l d * (Confidence l / 100))"
    using assms by (auto simp: thirdPass_def ld(3) split: if_splits)
  then show ?thesis
    using ld(1,2) by blast
qed

text \<open>A result of match type \<open>similarity\<close> carries the confidence of a label and, as
  \<open>similarityScore\<close>, that label's confidence-weighted similarity with the definition
  returned.\<close>

lemma similarity_tier_combined_score:
  assumes "matchType (identifyLandmark labels) = Some ''similarity''"
  shows "\<exists>l \<in> set labels. \<exists>d \<in> set landmarkDefinitions.
           rawLandmarkName (identifyLandmark labels) = Some (primaryName d)
           \<and> confidence (identifyLandmark labels) = Some (Confidence l)
           \<and> similarityScore (identifyLandmark labels)
               = Some (pairSimilarity l d * (Confidence l / 100))"
proof (cases "firstPass labels")
  case (Some r)
  then show ?thesis
    using assms firstPass_shape [OF Some] by (simp add: identifyLandmark_def)
next
  case n1: None
  show ?thesis
  proof (cases "secondPass labels")
    case (Some r)
    then show ?thesis
      using assms n1 secondPass_shape [OF Some] by (simp add: identifyLandmark_def)
  next
    case n2: None
    show ?thesis
    proof (cases "thirdPass labels")
      case (Some r)
      then show ?thesis
        using n1 n2 thirdPass_returns_combined_score [OF Some] by (simp add: identifyLandmark_def)
    next
      case n3: None
      show ?thesis
      proof (cases "fourthPass labels")
        case (Some r)
        then show ?thesis
          using assms n1 n2 n3 fourthPass_shape [OF Some] by (auto simp add: identifyLandmark_def)
      next
        case None
        then show ?thesis
          using assms n1 n2 n3 by (simp add: identifyLandmark_def noLandmark_def)
      qed
    qed
  qed
qed

text \<open>No other pass sets \<open>similarityScore\<close>.\<close>

lemma similarityScore_only_similarity:
  "similarityScore (identifyLandmark labels) = None
   \<or> matchType (identifyLandmark labels) = Some ''similarity''"
proof (cases "firstPass labels")
  case (Some r)
  then show ?thesis
    using firstPass_shape [OF Some] by (simp add: identifyLandmark_def)
next
  case n1: None
  show ?thesis
  proof (cases "secondPass labels")
    case (Some r)
    then show ?thesis
      using n1 secondPass_shape [OF Some] by (simp add: identifyLandmark_def)
  next
    case n2: None
    show ?thesis
    proof (cases "thirdPass labels")
      case (Some r)
      then show ?thesis
        using n1 n2 thirdPass_shape [OF Some] by (simp add: identifyLandmark_def)
    next
      case n3: None
      show ?thesis
      proof (cases "fourthPass labels")
        case (Some r)
        then show ?thesis
          using n1 n2 n3 fourthPass_shape [OF Some] by (simp add: identifyLandmark_def)
      next
        case None
        then show ?thesis
          using n1 n2 n3 by (simp add: identifyLandmark_def noLandmark_def)
      qed
    qed
  qed
qed

text \<open>
  Claim C3, evaluated on the label \<open>eiffel tower\<close> with confidence 80. The third pass wins
  with the Eiffel Tower, whose similarity with the label is 1, and the result carries the
  label's confidence 80; the field \<open>similarityScore\<close> of the result holds 4/5, the
  similarity weighted by the confidence, not the similarity.
\<close>

theorem similarity_tier_score_at_input:
  "matchType (identifyLandmark [\<lparr>Name = ''eiffel tower'', Confidence = 80\<rparr>]) = Some ''similarity''
   \<and> rawLandmarkName (identifyLandmark [\<lparr>Name = ''eiffel tower'', Confidence = 80\<rparr>])
       = Some (primaryName (hd landmarkDefinitions))
   \<and> pairSimilarity \<lparr>Name = ''eiffel tower'', Confidence = 80\<rparr> (hd landmarkDefinitions) = 1
   \<and> confidence (identifyLandmark [\<lparr>Name = ''eiffel tower'', Confidence = 80\<rparr>]) = Some 80
   \<and> similarityScore (identifyLandmark [\<lparr>Name = ''eiffel tower'', Confidence = 80\<rparr>]) = Some (4 / 5)"
  unfolding identify_lowercase_eiffel by (simp add: lowercase_eiffel_facts)

text \<open>
  Claim C6, evaluated on a single label with confidence 80 whose name is empty, or two
  blanks. The empty normalized name is contained in every normalized registry name, so
  \<^const>\<open>calculateSimilarity\<close> gives 0.7 and the third pass returns the Eiffel Tower;
  without the label there is no match.
\<close>

theorem empty_name_matches_at_input:
  "identifyLandmark [\<lparr>Name = '''', Confidence = 80\<rparr>]
   = \<lparr>isLandmark = True, landmarkName = ''eiffeltower'', rawLandmarkName = Some ''Eiffel Tower'',
      detectedLabels = [\<lparr>Name = '''', Confidence = 80\<rparr>],
      matchType = Some ''similarity'', confidence = Some 80, similarityScore = Some (14 / 25),
      matchScore = None\<rparr>
   \<and> identifyLandmark [\<lparr>Name = ''  '', Confidence = 80\<rparr>]
   = \<lparr>isLandmark = True, landmarkName = ''eiffeltower'', rawLandmarkName = Some ''Eiffel Tower'',
      detectedLabels = [\<lparr>Name = ''  '', Confidence = 80\<rparr>],
      matchType = Some ''similarity'', confidence = Some 80, similarityScore = Some (14 / 25),
      matchScore = None\<rparr>
   \<and> \<not> isLandmark (identifyLandmark [])"
proof -
  have a: "identifyLandmark [\<lparr>Name = '''', Confidence = 80\<rparr>]
   = \<lparr>isLandmark = True, landmarkName = ''eiffeltower'', rawLandmarkName = Some ''Eiffel Tower'',
      detectedLabels = [\<lparr>Name = '''', Confidence = 80\<rparr>],
      matchType = Some ''similarity'', confidence = Some 80, similarityScore = Some (14 / 25),
      matchScore = None\<rparr>"
    by code_simp
  have b: "identifyLandmark [\<lparr>Name = ''  '', Confidence = 80\<rparr>]
   = \<lparr>isLandmark = True, landmarkName = ''eiffeltower'', rawLandmarkName = Some ''Eiffel Tower'',
      detectedLabels = [\<lparr>Name = ''  '', Confidence = 80\<rparr>],
      matchType = Some ''similarity'', confidence = Some 80, similarityScore = Some (14 / 25),
      matchScore = None\<rparr>"
    by code_simp
  show ?thesis
    using a b by (simp add: identify_empty noLandmark_def)
qed

subsection \<open>The fourth pass\<close>

text \<open>The head of a list sorted by a key is an element with the least key.\<close>

lemma hd_sort_key_least:
  assumes "xs \<noteq> []"
  shows "hd (sort_key f xs) \<in> set xs \<and> (\<forall>x \<in> set xs. f (hd (sort_key f xs)) \<le> f x)"
proof -
  obtain y ys where ys: "sort_key f xs = y # ys"
    using assms by (cases "sort_key f xs") (auto dest: arg_cong [where f = length])
  have srt: "sorted (map f (y # ys))"
    using sorted_sort_key [of f xs] by (simp add: ys)
  have seteq: "set xs = insert y (set ys)"
    using set_sort [of f xs] by (simp add: ys)
  have "\<forall>x \<in> set xs. f y \<le> f x"
    using srt by (auto simp: seteq)
  then show ?thesis
    by (simp add: ys seteq)
qed

text \<open>The label the fourth pass works on has the highest confidence among the labels that
  are not generic and have confidence at least 75.\<close>

lemma bestLabel_highest:
  assumes "nonGenericLabelsOf labels \<noteq> []"
    and "b = hd (sortByConfidence (nonGenericLabelsOf labels))"
  shows "b \<in> set labels \<and> Name b \<notin> set genericNames \<and> 75 \<le> Confidence b
         \<and> (\<forall>l \<in> set (nonGenericLabelsOf labels). Confidence l \<le> Confidence b)"
proof -
  have "b \<in> set (nonGenericLabelsOf labels)
        \<and> (\<forall>l \<in> set (nonGenericLabelsOf labels). - Confidence b \<le> - Confidence l)"
    unfolding assms(2) sortByConfidence_def by (rule hd_sort_key_least [OF assms(1)])
  then show ?thesis
    by (auto simp: nonGenericLabelsOf_def)
qed

text \<open>
  Claim C4, amended. When at least two labels are landmark-related with confidence at least
  85, the first three passes returned nothing, the highest-confidence label among the
  non-generic labels of confidence at least 75 exists, finds no keyword match, has
  confidence at least 85 and is itself landmark-related, then the pipeline returns a match
  of type \<open>unknown\<close> whose raw name is that label's name and whose identifier is its
  normalized form; the label then has the highest confidence of all non-generic
  landmark-related labels.
\<close>

theorem generic_fallback:
  assumes "firstPass labels = None" and "secondPass labels = None" and "thirdPass labels = None"
    and "2 \<le> length (landmarkLabelsOf labels)"
    and "nonGenericLabelsOf labels \<noteq> []"
    and "b = hd (sortByConfidence (nonGenericLabelsOf labels))"
    and "\<not> (fst (fourthPassLoop b) \<notin> {None, Some []} \<and> 3 / 10 \<le> snd (fourthPassLoop b))"
    and "85 \<le> Confidence b"
    and "isLandmarkRelatedLabel (Name b)"
  shows "identifyLandmark labels =
           \<lparr>isLandmark = True,
            landmarkName = normalizeLandmarkName (Some (Name b)),
            rawLandmarkName = Some (Name b),
            detectedLabels = labels,
            matchType = Some ''unknown'',
            confidence = Some (Confidence b),
            similarityScore = None,
            matchScore = None\<rparr>
         \<and> b \<in> set labels \<and> Name b \<notin> set genericNames \<and> isLandmarkRelatedLabel (Name b)
         \<and> (\<forall>l \<in> set labels. Name l \<notin> set genericNames \<and> isLandmarkRelatedLabel (Name l)
               \<longrightarrow> Confidence l \<le> Confidence b)"
proof -
  note best = bestLabel_highest [OF assms(5,6)]
  have "fourthPass labels =
          Some \<lparr>isLandmark = True,
            landmarkName = normalizeLandmarkName (Some (Name b)),
            rawLandmarkName = Some (Name b),
            detectedLabels = labels,
            matchType = Some ''unknown'',
            confidence = Some (Confidence b),
            similarityScore = None,
            matchScore = None\<rparr>"
    using assms(4,5,7,8) unfolding fourthPass_def Let_def assms(6) [symmetric]
    by (cases "fourthPassLoop b") auto
  then have res: "identifyLandmark labels =
           \<lparr>isLandmark = True,
            landmarkName = normalizeLandmarkName (Some (Name b)),
            rawLandmarkName = Some (Name b),
            detectedLabels = labels,
            matchType = Some ''unknown'',
            confidence = Some (Confidence b),
            similarityScore = None,
            matchScore = None\<rparr>"
    using assms(1,2,3) by (simp add: identifyLandmark_def)
  have "Confidence l \<le> Confidence b"
    if "l \<in> set labels" "Name l \<notin> set genericNames" for l
  proof (cases "75 \<le> Confidence l")
    case True
    then have "l \<in> set (nonGenericLabelsOf labels)"
      using that by (simp add: nonGenericLabelsOf_def)
    then show ?thesis using best by blast
  next
    case False
    then show ?thesis using best by simp
  qed
  then show ?thesis
    using res best assms(9) by blast
qed

lemma ruins_facts:
  "firstPass [\<lparr>Name = ''Ancient Ruins'', Confidence = 90\<rparr>, \<lparr>Name = ''Historical Site'', Confidence = 88\<rparr>] = None"
  "secondPass [\<lparr>Name = ''Ancient Ruins'', Confidence = 90\<rparr>, \<lparr>Name = ''Historical Site'', Confidence = 88\<rparr>] = None"
  "thirdPass [\<lparr>Name = ''Ancient Ruins'', Confidence = 90\<rparr>, \<lparr>Name = ''Historical Site'', Confidence = 88\<rparr>] = None"
  "length (landmarkLabelsOf [\<lparr>Name = ''Ancient Ruins'', Confidence = 90\<rparr>, \<lparr>Name = ''Historical Site'', Confidence = 88\<rparr>]) = 2"
  "nonGenericLabelsOf [\<lparr>Name = ''Ancient Ruins'', Confidence = 90\<rparr>, \<lparr>Name = ''Historical Site'', Confidence = 88\<rparr>]
    = [\<lparr>Name = ''Ancient Ruins'', Confidence = 90\<rparr>, \<lparr>Name = ''Historical Site'', Confidence = 88\<rparr>]"
  "hd (sortByConfidence [\<lparr>Name = ''Ancient Ruins'', Confidence = 90\<rparr>, \<lparr>Name = ''Historical Site'', Confidence = 88\<rparr>])
    = \<lparr>Name = ''Ancient Ruins'', Confidence = 90\<rparr>"
  "fourthPassLoop \<lparr>Name = ''Ancient Ruins'', Confidence = 90\<rparr> = (Some ''Machu Picchu'', 1 / 4)"
  "isLandmarkRelatedLabel ''Ancient Ruins''"
  "normalizeLandmarkName (Some ''Ancient Ruins'') = ''ancientruins''"
  by code_simp+

theorem generic_fallback_witness:
  "identifyLandmark [\<lparr>Name = ''Ancient Ruins'', Confidence = 90\<rparr>,
                     \<lparr>Name = ''Historical Site'', Confidence = 88\<rparr>] =
     \<lparr>isLandmark = True, landmarkName = ''ancientruins'',
      rawLandmarkName = Some ''Ancient Ruins'',
      detectedLabels = [\<lparr>Name = ''Ancient Ruins'', Confidence = 90\<rparr>,
                        \<lparr>Name = ''Historical Site'', Confidence = 88\<rparr>],
      matchType = Some ''unknown'', confidence = Some 90, similarityScore = None,
      matchScore = None\<rparr>"
  using generic_fallback [of "[\<lparr>Name = ''Ancient Ruins'', Confidence = 90\<rparr>,
                                \<lparr>Name = ''Historical Site'', Confidence = 88\<rparr>]"
                             "\<lparr>Name = ''Ancient Ruins'', Confidence = 90\<rparr>"]
  by (simp add: ruins_facts)

lemma castle_facts:
  "firstPass [\<lparr>Name = ''Landmark'', Confidence = 90\<rparr>, \<lparr>Name = ''Monument'', Confidence = 90\<rparr>, \<lparr>Name = ''Old Castle'', Confidence = 80\<rparr>] = None"
  "secondPass [\<lparr>Name = ''Landmark'', Confidence = 90\<rparr>, \<lparr>Name = ''Monument'', Confidence = 90\<rparr>, \<lparr>Name = ''Old Castle'', Confidence = 80\<rparr>] = None"
  "thirdPass [\<lparr>Name = ''Landmark'', Confidence = 90\<rparr>, \<lparr>Name = ''Monument'', Confidence = 90\<rparr>, \<lparr>Name = ''Old Castle'', Confidence = 80\<rparr>] = None"
  "length (landmarkLabelsOf [\<lparr>Name = ''Landmark'', Confidence = 90\<rparr>, \<lparr>Name = ''Monument'', Confidence = 90\<rparr>, \<lparr>Name = ''Old Castle'', Confidence = 80\<rparr>]) = 2"
  "hd (sortByConfidence (nonGenericLabelsOf [\<lparr>Name = ''Landmark'', Confidence = 90\<rparr>, \<lparr>Name = ''Monument'', Confidence = 90\<rparr>, \<lparr>Name = ''Old Castle'', Confidence = 80\<rparr>]))
    = \<lparr>Name = ''Old Castle'', Confidence = 80\<rparr>"
  "fourthPassLoop \<lparr>Name = ''Old Castle'', Confidence = 80\<rparr> = (None, 0)"
  "isLandmarkRelatedLabel ''Old Castle''"
  "''Old Castle'' \<notin> set genericNames"
  "fourthPass [\<lparr>Name = ''Landmark'', Confidence = 90\<rparr>, \<lparr>Name = ''Monument'', Confidence = 90\<rparr>, \<lparr>Name = ''Old Castle'', Confidence = 80\<rparr>] = None"
  by code_simp+

text \<open>
  Claim C4, as the specification states it, fails. Two generic labels are landmark-related
  with confidence 90, and \<open>Old Castle\<close> is the one non-generic landmark-related label,
  with confidence 80. No pass up to the keyword match returns, and the fallback asks for
  confidence at least 85 of the label it would return: the result is no match.
\<close>

theorem generic_fallback_counterexample:
  "2 \<le> length (landmarkLabelsOf [\<lparr>Name = ''Landmark'', Confidence = 90\<rparr>,
                                   \<lparr>Name = ''Monument'', Confidence = 90\<rparr>,
                                   \<lparr>Name = ''Old Castle'', Confidence = 80\<rparr>])
   \<and> firstPass [\<lparr>Name = ''Landmark'', Confidence = 90\<rparr>, \<lparr>Name = ''Monument'', Confidence = 90\<rparr>,
                 \<lparr>Name = ''Old Castle'', Confidence = 80\<rparr>] = None
   \<and> secondPass [\<lparr>Name = ''Landmark'', Confidence = 90\<rparr>, \<lparr>Name = ''Monument'', Confidence = 90\<rparr>,
                  \<lparr>Name = ''Old Castle'', Confidence = 80\<rparr>] = None
   \<and> thirdPass [\<lparr>Name = ''Landmark'', Confidence = 90\<rparr>, \<lparr>Name = ''Monument'', Confidence = 90\<rparr>,
                 \<lparr>Name = ''Old Castle'', Confidence = 80\<rparr>] = None
   \<and> fourthPassLoop (hd (sortByConfidence (nonGenericLabelsOf
         [\<lparr>Name = ''Landmark'', Confidence = 90\<rparr>, \<lparr>Name = ''Monument'', Confidence = 90\<rparr>,
          \<lparr>Name = ''Old Castle'', Confidence = 80\<rparr>]))) = (None, 0)
   \<and> isLandmarkRelatedLabel ''Old Castle'' \<and> ''Old Castle'' \<notin> set genericNames
   \<and> \<not> isLandmark (identifyLandmark [\<lparr>Name = ''Landmark'', Confidence = 90\<rparr>,
                                      \<lparr>Name = ''Monument'', Confidence = 90\<rparr>,
                                      \<lparr>Name = ''Old Castle'', Confidence = 80\<rparr>])"
  by (simp add: castle_facts identifyLandmark_def noLandmark_def)

text \<open>The label the fallback returns is the highest-confidence non-generic label, which
  need not be landmark-related.\<close>

lemma generic_fallback_unrelated_label:
  "length (landmarkLabelsOf [\<lparr>Name = ''Old Castle'', Confidence = 90\<rparr>,
                             \<lparr>Name = ''Church'', Confidence = 88\<rparr>,
                             \<lparr>Name = ''Dog'', Confidence = 99\<rparr>]) = 2"
  "identifyLandmark [\<lparr>Name = ''Old Castle'', Confidence = 90\<rparr>,
                     \<lparr>Name = ''Church'', Confidence = 88\<rparr>,
                     \<lparr>Name = ''Dog'', Confidence = 99\<rparr>] =
     \<lparr>isLandmark = True, landmarkName = ''dog'', rawLandmarkName = Some ''Dog'',
      detectedLabels = [\<lparr>Name = ''Old Castle'', Confidence = 90\<rparr>,
                        \<lparr>Name = ''Church'', Confidence = 88\<rparr>,
                        \<lparr>Name = ''Dog'', Confidence = 99\<rparr>],
      matchType = Some ''unknown'', confidence = Some 99, similarityScore = None,
      matchScore = None\<rparr>"
  "\<not> isLandmarkRelatedLabel ''Dog''"
  by code_simp+

end
